theory Spec2Isabelle
  imports Complex_Main "HOL-Library.Sublist"
begin

section \<open>Python values\<close>

text \<open>
  A Python \<open>str\<close> is a sequence of Unicode code points, so it is modelled as a list of
  natural numbers; \<open>ascii\<close> embeds the ASCII literals of the source.
\<close>

type_synonym ustr = "nat list"

definition ascii :: "string \<Rightarrow> ustr" where
  "ascii s = map of_char s"

text \<open>The exceptions the modelled code can raise or let through.\<close>

datatype api_error = StatusFailed int | MaxRetriesExceeded

datatype py_error =
    TypeError
  | IndexError
  | AttributeError
  | UnboundLocalError
  | KeyError
  | OperationalError
  | ValueError
  | ClientError
  | OtherException
  | APIError api_error

section \<open>database.py: the favorites table\<close>

text \<open>
  One row of the table \<open>favorites\<close>: \<open>id INTEGER PRIMARY KEY AUTOINCREMENT\<close>,
  \<open>user_id INTEGER NOT NULL\<close>, \<open>movie_id INTEGER NOT NULL\<close>, \<open>title TEXT NOT NULL\<close>,
  \<open>poster_path TEXT\<close>. The table keeps its rows in insertion order; \<open>seq\<close> is the
  largest row id handed out so far (the AUTOINCREMENT counter).
\<close>

record favorite_row =
  row_id :: int
  user_id :: int
  movie_id :: int
  title :: ustr
  poster_path :: "ustr option"

record db =
  rows :: "favorite_row list"
  seq :: int

text \<open>
  The steps of a storage operation that the environment can make fail. A fault oracle
  says which of them fail during one call.
\<close>

datatype db_step = Connect | Execute | Commit

type_synonym faults = "db_step \<Rightarrow> bool"

definition no_faults :: faults where
  "no_faults = (\<lambda>_. False)"

definition connect_fails :: faults where
  "connect_fails = (\<lambda>s. s = Connect)"

text \<open>
  \<open>get_db_connection\<close> logs and re-raises whatever \<open>sqlite3.connect\<close> raised.
\<close>

definition get_db_connection :: "faults \<Rightarrow> py_error + unit" where
  "get_db_connection f = (if f Connect then Inl OperationalError else Inr ())"

text \<open>
  \<open>add_favorite\<close>: the body of the \<open>try\<close> is connect, INSERT, commit, \<open>return True\<close>;
  \<open>except Exception\<close> logs and returns \<open>False\<close>; \<open>finally\<close> runs \<open>conn.close()\<close>.
  When \<open>get_db_connection\<close> raised, the name \<open>conn\<close> was never bound, so the
  \<open>finally\<close> clause raises \<open>UnboundLocalError\<close>, which replaces the pending
  \<open>return False\<close>. A \<open>None\<close> title violates \<open>NOT NULL\<close>, which the INSERT reports as
  an exception. Closing without a commit discards the INSERT.
\<close>

definition add_favorite ::
  "faults \<Rightarrow> db \<Rightarrow> int \<Rightarrow> int \<Rightarrow> ustr option \<Rightarrow> ustr option \<Rightarrow> (py_error + bool) \<times> db" where
  "add_favorite f d uid mid ttl poster =
     (case get_db_connection f of
        Inl e \<Rightarrow> (Inl UnboundLocalError, d)
      | Inr conn \<Rightarrow>
          (case ttl of
             None \<Rightarrow> (Inr False, d)
           | Some t \<Rightarrow>
               if f Execute then (Inr False, d)
               else if f Commit then (Inr False, d)
               else (Inr True,
                     d\<lparr>rows := rows d @
                          [\<lparr>row_id = seq d + 1, user_id = uid, movie_id = mid,
                            title = t, poster_path = poster\<rparr>],
                       seq := seq d + 1\<rparr>)))"

text \<open>
  \<open>remove_favorite\<close>: same shape; the DELETE removes every row matching both keys and
  \<open>True\<close> is returned whatever the number of rows deleted.
\<close>

definition remove_favorite :: "faults \<Rightarrow> db \<Rightarrow> int \<Rightarrow> int \<Rightarrow> (py_error + bool) \<times> db" where
  "remove_favorite f d uid mid =
     (case get_db_connection f of
        Inl e \<Rightarrow> (Inl UnboundLocalError, d)
      | Inr conn \<Rightarrow>
          if f Execute then (Inr False, d)
          else if f Commit then (Inr False, d)
          else (Inr True,
                d\<lparr>rows := filter (\<lambda>r. \<not> (user_id r = uid \<and> movie_id r = mid)) (rows d)\<rparr>))"

text \<open>
  \<open>get_favorites\<close>: \<open>SELECT * FROM favorites WHERE user_id = ?\<close>, then \<open>fetchall\<close>;
  \<open>except Exception\<close> returns the empty list; the same \<open>finally\<close>.
\<close>

definition get_favorites :: "faults \<Rightarrow> db \<Rightarrow> int \<Rightarrow> py_error + favorite_row list" where
  "get_favorites f d uid =
     (case get_db_connection f of
        Inl e \<Rightarrow> Inl UnboundLocalError
      | Inr conn \<Rightarrow>
          if f Execute then Inr []
          else Inr (filter (\<lambda>r. user_id r = uid) (rows d)))"

definition empty_db :: db where
  "empty_db = \<lparr>rows = [], seq = 0\<rparr>"

section \<open>Parsed JSON\<close>

text \<open>
  What \<open>response.json()\<close> returns and what the handlers keep in the session: \<open>None\<close>,
  booleans, numbers, strings, lists and dicts (an association list read with
  \<open>map_of\<close>).
\<close>

datatype json =
    JNull
  | JBool bool
  | JInt int
  | JFloat real
  | JStr ustr
  | JList "json list"
  | JObj "(ustr \<times> json) list"

section \<open>main.py: make\_api\_request\<close>

text \<open>
  What one pass through the body of the \<open>for\<close> loop meets. \<open>Response status h body\<close>:
  \<open>session.get\<close> answered with that status, \<open>h\<close> describes the \<open>Retry-After\<close>
  header and \<open>body\<close> is what \<open>response.json()\<close> parses. \<open>ClientFault\<close>: one of
  \<open>ClientError\<close>, \<open>ClientConnectorError\<close>, \<open>ServerTimeoutError\<close> was raised under
  \<open>session.get\<close>. \<open>OtherFault\<close>: any other \<open>Exception\<close> was raised in the pass.
\<close>

datatype retry_after_header = Absent | Seconds int | Unparsable

datatype reply =
    Response int retry_after_header json
  | ClientFault
  | OtherFault

text \<open>
  \<open>int(response.headers.get('Retry-After', retry_delay))\<close>: the header's value when
  \<open>int\<close> accepts it, \<open>retry_delay\<close> when the header is absent, and \<open>ValueError\<close>
  (here \<open>None\<close>) when \<open>int\<close> rejects the header's text.
\<close>

fun retry_after :: "int \<Rightarrow> retry_after_header \<Rightarrow> int option" where
  "retry_after retry_delay Absent = Some retry_delay"
| "retry_after retry_delay (Seconds n) = Some n"
| "retry_after retry_delay Unparsable = None"

text \<open>
  How a block of the loop body ends: with \<open>return\<close>, with \<open>continue\<close>, or with an
  exception on its way out. Each block also hands on the log of the calls of
  \<open>asyncio.sleep\<close> so far, oldest first.
\<close>

datatype signal = Return json | Continue | Raise py_error

text \<open>
  The \<open>async with session.get(url) as response\<close> block: status 200 returns the parsed
  body; status 429 sleeps \<open>retry_after\<close> and continues; any other status raises
  \<open>APIError\<close>.
\<close>

definition response_block :: "int \<Rightarrow> reply \<Rightarrow> int list \<Rightarrow> signal \<times> int list" where
  "response_block retry_delay r waits =
     (case r of
        Response status h body \<Rightarrow>
          if status = 200 then (Return body, waits)
          else if status = 429 then
            (case retry_after retry_delay h of
               Some n \<Rightarrow> (Continue, waits @ [n])
             | None \<Rightarrow> (Raise ValueError, waits))
          else (Raise (APIError (StatusFailed status)), waits)
      | ClientFault \<Rightarrow> (Raise ClientError, waits)
      | OtherFault \<Rightarrow> (Raise OtherException, waits))"

text \<open>
  Both \<open>except\<close> clauses do the same: when \<open>attempt < max_retries - 1\<close> they sleep
  \<open>retry_delay * (2 ** attempt)\<close>, then \<open>continue\<close>.
\<close>

definition backoff :: "int \<Rightarrow> int \<Rightarrow> nat \<Rightarrow> int list \<Rightarrow> int list" where
  "backoff max_retries retry_delay attempt waits =
     (if int attempt < max_retries - 1 then waits @ [retry_delay * 2 ^ attempt] else waits)"

text \<open>
  The inner \<open>try\<close>: \<open>except (ClientError, ClientConnectorError, ServerTimeoutError)\<close>
  handles the client faults only.
\<close>

definition inner_try :: "int \<Rightarrow> int \<Rightarrow> nat \<Rightarrow> reply \<Rightarrow> int list \<Rightarrow> signal \<times> int list" where
  "inner_try max_retries retry_delay attempt r waits =
     (case response_block retry_delay r waits of
        (Raise e, w) \<Rightarrow>
          if e = ClientError then (Continue, backoff max_retries retry_delay attempt w)
          else (Raise e, w)
      | (sig, w) \<Rightarrow> (sig, w))"

text \<open>
  The outer \<open>try\<close>: \<open>except Exception\<close> handles every exception that reaches it,
  the \<open>APIError\<close> raised for a status and the \<open>ValueError\<close> of \<open>int\<close> included
  (\<open>APIError\<close> is a subclass of \<open>Exception\<close>).
\<close>

definition outer_try :: "int \<Rightarrow> int \<Rightarrow> nat \<Rightarrow> reply \<Rightarrow> int list \<Rightarrow> signal \<times> int list" where
  "outer_try max_retries retry_delay attempt r waits =
     (case inner_try max_retries retry_delay attempt r waits of
        (Raise e, w) \<Rightarrow> (Continue, backoff max_retries retry_delay attempt w)
      | (sig, w) \<Rightarrow> (sig, w))"

text \<open>
  The result of a call: what it returned or raised, the sleeps it made, and how many
  times it ran the body of the loop.
\<close>

record fetch_run =
  outcome :: "py_error + json"
  slept :: "int list"
  attempts :: nat

text \<open>
  \<open>for attempt in range(max_retries)\<close>, from \<open>attempt\<close> on; \<open>env\<close> gives what each
  pass meets. When the range is used up, \<open>APIError("Max retries exceeded")\<close> is raised.
\<close>

function request_loop :: "int \<Rightarrow> int \<Rightarrow> (nat \<Rightarrow> reply) \<Rightarrow> nat \<Rightarrow> int list \<Rightarrow> fetch_run" where
  "request_loop max_retries retry_delay env attempt waits =
     (if max_retries \<le> int attempt
      then \<lparr>outcome = Inl (APIError MaxRetriesExceeded), slept = waits, attempts = attempt\<rparr>
      else
        (case outer_try max_retries retry_delay attempt (env attempt) waits of
           (Return body, w) \<Rightarrow> \<lparr>outcome = Inr body, slept = w, attempts = Suc attempt\<rparr>
         | (Continue, w) \<Rightarrow> request_loop max_retries retry_delay env (Suc attempt) w
         | (Raise e, w) \<Rightarrow> \<lparr>outcome = Inl e, slept = w, attempts = Suc attempt\<rparr>))"
  by pat_completeness auto
termination
  by (relation "measure (\<lambda>(m, d, env, a, w). nat (m - int a))") auto

declare request_loop.simps [simp del]

definition make_api_request :: "int \<Rightarrow> int \<Rightarrow> (nat \<Rightarrow> reply) \<Rightarrow> fetch_run" where
  "make_api_request max_retries retry_delay env = request_loop max_retries retry_delay env 0 []"

text \<open>The call every handler makes: \<open>max_retries=3, retry_delay=1\<close>, the defaults.\<close>

definition make_api_request_default :: "(nat \<Rightarrow> reply) \<Rightarrow> fetch_run" where
  "make_api_request_default env = make_api_request 3 1 env"

text \<open>
  Classifying what a pass meets, to state properties of runs: a connection-level fault;
  a 429 whose header \<open>int\<close> accepts (or that has none), with the sleep it causes.
\<close>

definition connection_fault :: "reply \<Rightarrow> bool" where
  "connection_fault r =
     (case r of Response s h b \<Rightarrow> False | ClientFault \<Rightarrow> True | OtherFault \<Rightarrow> True)"

definition rate_limited :: "int \<Rightarrow> reply \<Rightarrow> bool" where
  "rate_limited retry_delay r =
     (case r of
        Response s h b \<Rightarrow> s = 429 \<and> retry_after retry_delay h \<noteq> None
      | ClientFault \<Rightarrow> False
      | OtherFault \<Rightarrow> False)"

definition rate_limit_wait :: "int \<Rightarrow> reply \<Rightarrow> int" where
  "rate_limit_wait retry_delay r =
     (case r of
        Response s h b \<Rightarrow> (case retry_after retry_delay h of Some n \<Rightarrow> n | None \<Rightarrow> 0)
      | ClientFault \<Rightarrow> 0
      | OtherFault \<Rightarrow> 0)"

section \<open>Python operations on parsed JSON\<close>

text \<open>Truth value testing, as \<open>not x\<close> and \<open>if x\<close> do it.\<close>

fun truthy :: "json \<Rightarrow> bool" where
  "truthy JNull = False"
| "truthy (JBool b) = b"
| "truthy (JInt i) = (i \<noteq> 0)"
| "truthy (JFloat x) = (x \<noteq> 0)"
| "truthy (JStr s) = (s \<noteq> [])"
| "truthy (JList xs) = (xs \<noteq> [])"
| "truthy (JObj kvs) = (kvs \<noteq> [])"

text \<open>\<open>x.get(key)\<close>: only a dict has the method.\<close>

fun py_get :: "json \<Rightarrow> ustr \<Rightarrow> py_error + json option" where
  "py_get (JObj kvs) k = Inr (map_of kvs k)"
| "py_get v k = Inl AttributeError"

text \<open>\<open>x == n\<close> for a Python int \<open>n\<close>: numbers compare by value, \<open>True\<close> is 1.\<close>

fun eq_int :: "json \<Rightarrow> int \<Rightarrow> bool" where
  "eq_int (JInt i) n = (i = n)"
| "eq_int (JFloat x) n = (x = of_int n)"
| "eq_int (JBool b) n = ((if b then 1 else 0) = n)"
| "eq_int v n = False"

text \<open>\<open>xs[i]\<close> on a list: a negative index counts from the end.\<close>

definition py_index :: "'a list \<Rightarrow> int \<Rightarrow> py_error + 'a" where
  "py_index xs i =
     (if 0 \<le> i \<and> i < int (length xs) then Inr (xs ! nat i)
      else if i < 0 \<and> - int (length xs) \<le> i then Inr (xs ! nat (int (length xs) + i))
      else Inl IndexError)"

text \<open>
  \<open>x[:4]\<close>: a string or a list gives its first four elements (all of them when it has
  fewer); \<open>None\<close>, a number or a boolean is not subscriptable, and a dict rejects the
  slice as a key.
\<close>

fun slice4 :: "json \<Rightarrow> py_error + json" where
  "slice4 (JStr s) = Inr (JStr (take 4 s))"
| "slice4 (JList xs) = Inr (JList (take 4 xs))"
| "slice4 v = Inl TypeError"

section \<open>main.py: rendering one item\<close>

text \<open>The placeholder \<open>'Neizvestno'\<close> of the source, in Cyrillic letters.\<close>

definition unknown_year :: ustr where
  "unknown_year = [1053, 1077, 1080, 1079, 1074, 1077, 1089, 1090, 1085, 1086]"

text \<open>
  \<open>item.get('release_date', item.get('first_air_date', placeholder))[:4]\<close>, the year
  line of \<open>show_search_results\<close>, \<open>show_popular_content\<close> and
  \<open>show_favorites_page\<close>.
\<close>

definition date_field :: "(ustr \<times> json) list \<Rightarrow> json" where
  "date_field item =
     (case map_of item (ascii ''release_date'') of
        Some v \<Rightarrow> v
      | None \<Rightarrow>
          (case map_of item (ascii ''first_air_date'') of
             Some v \<Rightarrow> v
           | None \<Rightarrow> JStr unknown_year))"

definition release_year :: "(ustr \<times> json) list \<Rightarrow> py_error + json" where
  "release_year item = slice4 (date_field item)"

text \<open>\<open>item.get('release_date', placeholder)[:4]\<close>, as \<open>show_similar_content\<close> has it.\<close>

definition release_year_similar :: "(ustr \<times> json) list \<Rightarrow> py_error + json" where
  "release_year_similar item =
     slice4 (case map_of item (ascii ''release_date'') of
               Some v \<Rightarrow> v | None \<Rightarrow> JStr unknown_year)"

text \<open>
  The four rendering functions and what they send: the position line
  (\<open>current_page + 1\<close> of \<open>total_pages\<close>), the year, the \<open>callback_data\<close> of the
  navigation buttons, the id the action buttons carry, and whether a photo is sent.
  The title, rating and overview lines are formatted from \<open>item.get\<close> with a default
  and cannot raise; they are not part of the payload.
\<close>

datatype show_func =
  ShowSearchResults | ShowPopularContent | ShowSimilarContent | ShowFavoritesPage

record payload =
  shown_by :: show_func
  position :: int
  total :: int
  year :: json
  nav :: "ustr list"
  item_id :: "json option"
  photo :: bool

datatype notice = NothingFound | NoFavorites

datatype toast = Removed | RemoveFailed

datatype effect = Page payload | Notice notice | Toast toast

definition nav_buttons :: "ustr \<Rightarrow> ustr \<Rightarrow> int \<Rightarrow> int \<Rightarrow> ustr list" where
  "nav_buttons prev_callback next_callback current_page total_pages =
     (if current_page > 0 then [prev_callback] else []) @
     (if current_page < total_pages - 1 then [next_callback] else []) @
     [ascii ''back_to_main'']"

text \<open>
  The common body: \<open>if not isinstance(item, dict) or not item.get("id"): return\<close>,
  then the text (whose year line can raise), the buttons and the message.
\<close>

definition render ::
  "show_func \<Rightarrow> ((ustr \<times> json) list \<Rightarrow> py_error + json) \<Rightarrow> ustr \<Rightarrow> ustr \<Rightarrow>
   json \<Rightarrow> int \<Rightarrow> int \<Rightarrow> py_error + effect list" where
  "render fn year_line prev_callback next_callback item current_page total_pages =
     (case item of
        JObj kvs \<Rightarrow>
          (case map_of kvs (ascii ''id'') of
             None \<Rightarrow> Inr []
           | Some i \<Rightarrow>
               if \<not> truthy i then Inr []
               else
                 (case year_line kvs of
                    Inl e \<Rightarrow> Inl e
                  | Inr y \<Rightarrow>
                      Inr [Page \<lparr>shown_by = fn, position = current_page + 1,
                                 total = total_pages, year = y,
                                 nav = nav_buttons prev_callback next_callback
                                         current_page total_pages,
                                 item_id = Some i,
                                 photo = (case map_of kvs (ascii ''poster_path'') of
                                            None \<Rightarrow> False | Some p \<Rightarrow> truthy p)\<rparr>]))
      | _ \<Rightarrow> Inr [])"

definition show_search_results :: "json \<Rightarrow> ustr \<Rightarrow> int \<Rightarrow> int \<Rightarrow> py_error + effect list" where
  "show_search_results item content_type current_page total_pages =
     render ShowSearchResults release_year (ascii ''prev_page'') (ascii ''next_page'')
       item current_page total_pages"

definition show_popular_content :: "json \<Rightarrow> ustr \<Rightarrow> int \<Rightarrow> int \<Rightarrow> py_error + effect list" where
  "show_popular_content item content_type current_page total_pages =
     render ShowPopularContent release_year (ascii ''prev_popular'') (ascii ''next_popular'')
       item current_page total_pages"

definition show_similar_content :: "json \<Rightarrow> int \<Rightarrow> int \<Rightarrow> py_error + effect list" where
  "show_similar_content item current_page total_pages =
     render ShowSimilarContent release_year_similar (ascii ''prev_similar'')
       (ascii ''next_similar'') item current_page total_pages"

definition show_favorites_page :: "json \<Rightarrow> int \<Rightarrow> int \<Rightarrow> py_error + effect list" where
  "show_favorites_page item current_page total_pages =
     render ShowFavoritesPage release_year (ascii ''prev_favorite'') (ascii ''next_favorite'')
       item current_page total_pages"

text \<open>
  \<open>show_func(chat_id, item, content_type, current_page, len(results))\<close>, the call
  \<open>handle_navigation\<close> makes: five positional arguments. \<open>show_similar_content\<close> and
  \<open>show_favorites_page\<close> take four parameters, so for them the call raises
  \<open>TypeError\<close>.
\<close>

fun call_show :: "show_func \<Rightarrow> json \<Rightarrow> ustr \<Rightarrow> int \<Rightarrow> int \<Rightarrow> py_error + effect list" where
  "call_show ShowSearchResults item ct cp n = show_search_results item ct cp n"
| "call_show ShowPopularContent item ct cp n = show_popular_content item ct cp n"
| "call_show ShowSimilarContent item ct cp n = Inl TypeError"
| "call_show ShowFavoritesPage item ct cp n = Inl TypeError"


section \<open>main.py: the session and its handlers\<close>

text \<open>
  The FSM data of one conversation: a dict in which the handlers store, under fixed
  keys, the result lists, the cursor, the page count and the content type. A key that
  was never written (or was cleared) is \<open>None\<close> here.
\<close>

record session =
  search_results :: "json list option"
  popular_results :: "json list option"
  similar_results :: "json list option"
  favorites :: "json list option"
  current_page :: "int option"
  total_pages :: "int option"
  content_type :: "ustr option"

definition cleared :: session where
  "cleared = \<lparr>search_results = None, popular_results = None, similar_results = None,
              favorites = None, current_page = None, total_pages = None,
              content_type = None\<rparr>"

text \<open>The values of the parameter \<open>data_key\<close> and \<open>data.get(data_key)\<close>.\<close>

datatype data_key = SearchResults | PopularResults | SimilarResults | Favorites

fun stored :: "session \<Rightarrow> data_key \<Rightarrow> json list option" where
  "stored s SearchResults = search_results s"
| "stored s PopularResults = popular_results s"
| "stored s SimilarResults = similar_results s"
| "stored s Favorites = favorites s"

text \<open>
  A button press: \<open>callback.message\<close> (its chat id) can be missing, and so can
  \<open>callback.data\<close>.
\<close>

record callback =
  message_chat :: "int option"
  cb_data :: "ustr option"
  from_user :: int

text \<open>
  What a handler leaves behind: the session data as last written by
  \<open>state.update_data\<close>, what it sent, and the exception that ended it, if any.
\<close>

record handled =
  state_after :: session
  effects :: "effect list"
  fault :: "py_error option"

definition finish :: "session \<Rightarrow> py_error + effect list \<Rightarrow> handled" where
  "finish s r =
     (case r of
        Inl e \<Rightarrow> \<lparr>state_after = s, effects = [], fault = Some e\<rparr>
      | Inr es \<Rightarrow> \<lparr>state_after = s, effects = es, fault = None\<rparr>)"

text \<open>
  \<open>handle_navigation\<close>. The defaults of the three \<open>data.get\<close> calls are \<open>0\<close>, \<open>[]\<close>
  and \<open>"movie"\<close>. In either branch the cursor is written to the session before the
  list is indexed and the rendering function is called.
\<close>

definition show_at ::
  "session \<Rightarrow> show_func \<Rightarrow> json list \<Rightarrow> ustr \<Rightarrow> int \<Rightarrow> handled" where
  "show_at s show results ct cp =
     finish (s\<lparr>current_page := Some cp\<rparr>)
       (case py_index results cp of
          Inl e \<Rightarrow> Inl e
        | Inr item \<Rightarrow> call_show show item ct cp (int (length results)))"

definition handle_navigation ::
  "callback \<Rightarrow> session \<Rightarrow> data_key \<Rightarrow> show_func \<Rightarrow> ustr \<Rightarrow> ustr \<Rightarrow> handled" where
  "handle_navigation cb s key show prev_callback next_callback =
     (if message_chat cb = None then finish s (Inr [])
      else
        let cp = (case current_page s of Some c \<Rightarrow> c | None \<Rightarrow> 0);
            results = (case stored s key of Some xs \<Rightarrow> xs | None \<Rightarrow> []);
            ct = (case content_type s of Some t \<Rightarrow> t | None \<Rightarrow> ascii ''movie'')
        in if cb_data cb = Some prev_callback \<and> cp > 0
           then show_at s show results ct (cp - 1)
           else if cb_data cb = Some next_callback \<and> cp < int (length results) - 1
           then show_at s show results ct (cp + 1)
           else finish s (Inr []))"

text \<open>
  The eight registered handlers \<open>prev_page\<close>, \<open>next_page\<close>, \<open>prev_popular\<close>, ... call
  \<open>handle_navigation\<close> with one of four sets of arguments, one per view.
\<close>

datatype view = SearchView | PopularView | SimilarView | FavoritesView

fun key_of :: "view \<Rightarrow> data_key" where
  "key_of SearchView = SearchResults"
| "key_of PopularView = PopularResults"
| "key_of SimilarView = SimilarResults"
| "key_of FavoritesView = Favorites"

fun show_of :: "view \<Rightarrow> show_func" where
  "show_of SearchView = ShowSearchResults"
| "show_of PopularView = ShowPopularContent"
| "show_of SimilarView = ShowSimilarContent"
| "show_of FavoritesView = ShowFavoritesPage"

fun prev_of :: "view \<Rightarrow> ustr" where
  "prev_of SearchView = ascii ''prev_page''"
| "prev_of PopularView = ascii ''prev_popular''"
| "prev_of SimilarView = ascii ''prev_similar''"
| "prev_of FavoritesView = ascii ''prev_favorite''"

fun next_of :: "view \<Rightarrow> ustr" where
  "next_of SearchView = ascii ''next_page''"
| "next_of PopularView = ascii ''next_popular''"
| "next_of SimilarView = ascii ''next_similar''"
| "next_of FavoritesView = ascii ''next_favorite''"

definition navigate :: "view \<Rightarrow> callback \<Rightarrow> session \<Rightarrow> handled" where
  "navigate v cb s = handle_navigation cb s (key_of v) (show_of v) (prev_of v) (next_of v)"

text \<open>
  A sequence of button presses of one view, each handled on the session the previous
  one left (an exception ends one handler, not the conversation).
\<close>

fun run_events :: "view \<Rightarrow> callback list \<Rightarrow> session \<Rightarrow> session" where
  "run_events v [] s = s"
| "run_events v (cb # cbs) s = run_events v cbs (state_after (navigate v cb s))"


section \<open>main.py: starting a search\<close>

record message =
  msg_chat :: int
  msg_text :: "ustr option"

text \<open>
  \<open>for item in x\<close>: a list gives its elements, a string its characters, a dict its
  keys; anything else is not iterable.
\<close>

fun iterate :: "json \<Rightarrow> py_error + json list" where
  "iterate (JList xs) = Inr xs"
| "iterate (JStr s) = Inr (map (\<lambda>c. JStr [c]) s)"
| "iterate (JObj kvs) = Inr (map (\<lambda>kv. JStr (fst kv)) kvs)"
| "iterate v = Inl TypeError"

text \<open>
  \<open>[item for item in ... if item.get("media_type") in ["movie", "tv"]]\<close>, element by
  element; an element without \<open>get\<close> ends the comprehension.
\<close>

fun keep_media :: "json list \<Rightarrow> py_error + json list" where
  "keep_media [] = Inr []"
| "keep_media (item # rest) =
     (case py_get item (ascii ''media_type'') of
        Inl e \<Rightarrow> Inl e
      | Inr mt \<Rightarrow>
          (case keep_media rest of
             Inl e \<Rightarrow> Inl e
           | Inr kept \<Rightarrow>
               Inr (if mt = Some (JStr (ascii ''movie'')) \<or> mt = Some (JStr (ascii ''tv''))
                    then item # kept else kept)))"

text \<open>
  \<open>process_search_query\<close>; \<open>env\<close> is what the provider answers to the requests of
  \<open>make_api_request(session, url)\<close>. An exception of \<open>make_api_request\<close> is not
  caught. The session is written before \<open>results[0]\<close> is read.
\<close>

definition process_search_query :: "message \<Rightarrow> (nat \<Rightarrow> reply) \<Rightarrow> session \<Rightarrow> handled" where
  "process_search_query msg env s =
     (case msg_text msg of
        None \<Rightarrow> finish s (Inr [])
      | Some q \<Rightarrow>
          if q = [] then finish s (Inr [])
          else
            (case outcome (make_api_request_default env) of
               Inl e \<Rightarrow> finish s (Inl e)
             | Inr data \<Rightarrow>
                 (case data of
                    JObj kvs \<Rightarrow>
                      (case map_of kvs (ascii ''results'') of
                         None \<Rightarrow> finish s (Inr [Notice NothingFound])
                       | Some found \<Rightarrow>
                           if \<not> truthy found then finish s (Inr [Notice NothingFound])
                           else
                             (case iterate found of
                                Inl e \<Rightarrow> finish s (Inl e)
                              | Inr items \<Rightarrow>
                                  (case keep_media items of
                                     Inl e \<Rightarrow> finish s (Inl e)
                                   | Inr results \<Rightarrow>
                                       finish
                                         (s\<lparr>search_results := Some results,
                                            current_page := Some 0,
                                            total_pages := Some (int (length results)),
                                            content_type := Some (ascii ''search'')\<rparr>)
                                         (case py_index results 0 of
                                            Inl e \<Rightarrow> Inl e
                                          | Inr item \<Rightarrow>
                                              show_search_results item (ascii ''search'') 0
                                                (int (length results))))))
                  | _ \<Rightarrow> finish s (Inr [Notice NothingFound]))))"

text \<open>
  The entries the browsing set is meant to keep: dicts whose \<open>media_type\<close> is the
  string \<open>movie\<close> or the string \<open>tv\<close>.
\<close>

fun movie_or_tv :: "json \<Rightarrow> bool" where
  "movie_or_tv (JObj kvs) =
     (map_of kvs (ascii ''media_type'') = Some (JStr (ascii ''movie'')) \<or>
      map_of kvs (ascii ''media_type'') = Some (JStr (ascii ''tv'')))"
| "movie_or_tv v = False"

fun is_dict :: "json \<Rightarrow> bool" where
  "is_dict (JObj kvs) = True"
| "is_dict v = False"

section \<open>main.py: the favorites view\<close>

text \<open>The dict \<open>show_favorites\<close> builds from a row \<open>fav\<close> of the table.\<close>

definition favorite_dict :: "favorite_row \<Rightarrow> json" where
  "favorite_dict fav =
     JObj [(ascii ''id'', JInt (movie_id fav)),
           (ascii ''title'', JStr (title fav)),
           (ascii ''poster_path'',
              (case poster_path fav of None \<Rightarrow> JNull | Some p \<Rightarrow> JStr p)),
           (ascii ''overview'', JStr []),
           (ascii ''vote_average'', JInt 0),
           (ascii ''release_date'', JStr [])]"

definition show_favorites :: "callback \<Rightarrow> faults \<Rightarrow> db \<Rightarrow> session \<Rightarrow> handled" where
  "show_favorites cb f d s =
     (if message_chat cb = None then finish s (Inr [])
      else
        (case get_favorites f d (from_user cb) of
           Inl e \<Rightarrow> finish s (Inl e)
         | Inr favs \<Rightarrow>
             if favs = [] then finish s (Inr [Notice NoFavorites])
             else
               let favorites_dicts = map favorite_dict favs;
                   n = int (length favorites_dicts)
               in finish
                    (s\<lparr>favorites := Some favorites_dicts, current_page := Some 0,
                       total_pages := Some n\<rparr>)
                    (case py_index favorites_dicts 0 of
                       Inl e \<Rightarrow> Inl e
                     | Inr item \<Rightarrow> show_favorites_page item 0 n)))"

text \<open>\<open>x['id']\<close>: a dict without the key raises \<open>KeyError\<close>, a non-dict \<open>TypeError\<close>.\<close>

fun py_item :: "json \<Rightarrow> ustr \<Rightarrow> py_error + json" where
  "py_item (JObj kvs) k = (case map_of kvs k of None \<Rightarrow> Inl KeyError | Some v \<Rightarrow> Inr v)"
| "py_item v k = Inl TypeError"

text \<open>\<open>[f for f in favorites if f['id'] != movie_id]\<close>.\<close>

fun drop_movie :: "int \<Rightarrow> json list \<Rightarrow> py_error + json list" where
  "drop_movie mid [] = Inr []"
| "drop_movie mid (fav # rest) =
     (case py_item fav (ascii ''id'') of
        Inl e \<Rightarrow> Inl e
      | Inr i \<Rightarrow>
          (case drop_movie mid rest of
             Inl e \<Rightarrow> Inl e
           | Inr kept \<Rightarrow> Inr (if eq_int i mid then kept else fav # kept)))"

text \<open>\<open>data.split("_")[-1]\<close>: what follows the last underscore (code point 95).\<close>

definition last_segment :: "ustr \<Rightarrow> ustr" where
  "last_segment data = rev (takeWhile (\<lambda>c. c \<noteq> 95) (rev data))"

text \<open>A handler that has already sent \<open>pre\<close> ends with \<open>r\<close>.\<close>

definition finish_after :: "effect list \<Rightarrow> session \<Rightarrow> py_error + effect list \<Rightarrow> handled" where
  "finish_after pre s r =
     (case r of
        Inl e \<Rightarrow> \<lparr>state_after = s, effects = pre, fault = Some e\<rparr>
      | Inr es \<Rightarrow> \<lparr>state_after = s, effects = pre @ es, fault = None\<rparr>)"

text \<open>
  \<open>remove_from_favorites\<close>. The builtin \<open>int\<close> is the parameter \<open>py_int\<close>: \<open>None\<close>
  stands for its \<open>ValueError\<close>, which the handler catches and returns on. When the
  filtered list is empty the handler sends the notice and returns without writing
  the session.
\<close>

definition remove_from_favorites ::
  "(ustr \<Rightarrow> int option) \<Rightarrow> callback \<Rightarrow> faults \<Rightarrow> db \<Rightarrow> session \<Rightarrow> db \<times> handled" where
  "remove_from_favorites py_int cb f d s =
     (if message_chat cb = None then (d, finish s (Inr []))
      else
        (case cb_data cb of
           None \<Rightarrow> (d, finish s (Inr []))
         | Some data \<Rightarrow>
             if data = [] then (d, finish s (Inr []))
             else
               (case py_int (last_segment data) of
                  None \<Rightarrow> (d, finish s (Inr []))
                | Some mid \<Rightarrow>
                    (case remove_favorite f d (from_user cb) mid of
                       (Inl e, d') \<Rightarrow> (d', finish s (Inl e))
                     | (Inr removed, d') \<Rightarrow>
                         if removed then
                           let favs = (case favorites s of Some xs \<Rightarrow> xs | None \<Rightarrow> []);
                               cp = (case current_page s of Some c \<Rightarrow> c | None \<Rightarrow> 0)
                           in
                             (case drop_movie mid favs of
                                Inl e \<Rightarrow> (d', finish_after [Toast Removed] s (Inl e))
                              | Inr kept \<Rightarrow>
                                  if kept = []
                                  then (d', finish_after [Toast Removed] s
                                              (Inr [Notice NoFavorites]))
                                  else
                                    let n = int (length kept);
                                        cp' = (if cp \<ge> n then n - 1 else cp)
                                    in (d', finish_after [Toast Removed]
                                              (s\<lparr>favorites := Some kept,
                                                 current_page := Some cp'\<rparr>)
                                              (case py_index kept cp' of
                                                 Inl e \<Rightarrow> Inl e
                                               | Inr item \<Rightarrow>
                                                   show_favorites_page item cp' n)))
                         else (d', finish_after [] s (Inr [Toast RemoveFailed]))))))"

section \<open>Example values\<close>

definition film_a :: json where
  "film_a = JObj [(ascii ''id'', JInt 27205), (ascii ''media_type'', JStr (ascii ''movie'')),
                  (ascii ''title'', JStr (ascii ''Inception'')),
                  (ascii ''release_date'', JStr (ascii ''2010-07-16''))]"

definition series_b :: json where
  "series_b = JObj [(ascii ''id'', JInt 1396), (ascii ''media_type'', JStr (ascii ''tv'')),
                    (ascii ''name'', JStr (ascii ''Breaking Bad'')),
                    (ascii ''first_air_date'', JStr (ascii ''2008-01-20''))]"

definition person_c :: json where
  "person_c = JObj [(ascii ''id'', JInt 525), (ascii ''media_type'', JStr (ascii ''person'')),
                    (ascii ''name'', JStr (ascii ''Christopher Nolan''))]"

definition press :: "string \<Rightarrow> callback" where
  "press d = \<lparr>message_chat = Some 100, cb_data = Some (ascii d), from_user = 5\<rparr>"

definition browsing :: "int \<Rightarrow> session" where
  "browsing c = cleared\<lparr>search_results := Some [film_a, series_b], current_page := Some c,
                         total_pages := Some 2, content_type := Some (ascii ''search'')\<rparr>"


definition unpaged :: session where
  "unpaged = cleared\<lparr>search_results := Some [film_a, series_b]\<rparr>"

definition stale_cursor :: session where
  "stale_cursor = cleared\<lparr>search_results := Some [film_a, series_b, film_a, series_b],
                          current_page := Some 3\<rparr>"


definition undated :: json where
  "undated = JObj [(ascii ''id'', JInt 603), (ascii ''title'', JStr (ascii ''The Matrix'')),
                   (ascii ''release_date'', JStr [])]"

definition provider_ok :: "json \<Rightarrow> nat \<Rightarrow> reply" where
  "provider_ok body = (\<lambda>attempt. Response 200 Absent body)"

definition mixed_response :: json where
  "mixed_response = JObj [(ascii ''page'', JInt 1),
                          (ascii ''results'', JList [film_a, person_c, series_b])]"

definition query :: message where
  "query = \<lparr>msg_chat = 100, msg_text = Some (ascii ''nolan'')\<rparr>"

definition fav_row :: "int \<Rightarrow> int \<Rightarrow> favorite_row" where
  "fav_row rid mid = \<lparr>row_id = rid, user_id = 5, movie_id = mid, title = ascii ''Heat'',
                     poster_path = None\<rparr>"

definition favorites_session :: "favorite_row list \<Rightarrow> int \<Rightarrow> session" where
  "favorites_session rws c =
     cleared\<lparr>favorites := Some (map favorite_dict rws), current_page := Some c,
             total_pages := Some (int (length rws))\<rparr>"

text \<open>A stand-in for \<open>int\<close> that reads the two numerals the examples use.\<close>

definition int_of_text :: "ustr \<Rightarrow> int option" where
  "int_of_text t = (if t = ascii ''7'' then Some 7 else if t = ascii ''8'' then Some 8 else None)"

section \<open>Properties of the favorites table\<close>

lemma get_favorites_no_faults:
  "get_favorites no_faults d uid = Inr (filter (\<lambda>r. user_id r = uid) (rows d))"
  by (simp add: get_favorites_def get_db_connection_def no_faults_def)

lemma add_favorite_success:
  assumes "add_favorite f d uid mid ttl poster = (Inr True, d')"
  shows "\<exists>t. ttl = Some t \<and>
           rows d' = rows d @ [\<lparr>row_id = seq d + 1, user_id = uid, movie_id = mid,
                                 title = t, poster_path = poster\<rparr>]"
  using assms
  by (auto simp: add_favorite_def get_db_connection_def split: if_splits option.splits)

lemma remove_favorite_no_faults:
  "remove_favorite no_faults d uid mid =
     (Inr True, d\<lparr>rows := filter (\<lambda>r. \<not> (user_id r = uid \<and> movie_id r = mid)) (rows d)\<rparr>)"
  by (simp add: remove_favorite_def get_db_connection_def no_faults_def)

text \<open>
  C7. From a store in which the owner has no favorites, a successful add followed by
  list gives exactly one entry, carrying the content id and the title that were added;
  a following remove succeeds and list is then empty. Remove reports success on any
  store, also when no row matches.
\<close>

theorem add_list_remove_list:
  assumes empty: "get_favorites no_faults d owner = Inr []"
    and added: "add_favorite f d owner cid ttl poster = (Inr True, d1)"
    and removed: "remove_favorite no_faults d1 owner cid = (r, d2)"
  shows "(\<exists>e. get_favorites no_faults d1 owner = Inr [e] \<and> movie_id e = cid \<and>
               Some (title e) = ttl \<and> user_id e = owner) \<and>
         r = Inr True \<and>
         get_favorites no_faults d2 owner = Inr [] \<and>
         fst (remove_favorite no_faults d0 u m) = Inr True"
proof -
  from empty have none: "filter (\<lambda>r. user_id r = owner) (rows d) = []"
    by (simp add: get_favorites_no_faults)
  from add_favorite_success [OF added] obtain t where t: "ttl = Some t"
    and rows1: "rows d1 = rows d @ [\<lparr>row_id = seq d + 1, user_id = owner, movie_id = cid,
                                      title = t, poster_path = poster\<rparr>]"
    by blast
  have listed: "\<exists>e. get_favorites no_faults d1 owner = Inr [e] \<and> movie_id e = cid \<and>
               Some (title e) = ttl \<and> user_id e = owner"
    by (simp add: get_favorites_no_faults rows1 none t)
  from removed have ok: "r = Inr True"
    by (simp add: remove_favorite_no_faults)
  from removed have "rows d2 = filter (\<lambda>r. \<not> (user_id r = owner \<and> movie_id r = cid)) (rows d1)"
    by (auto simp: remove_favorite_no_faults)
  then have "filter (\<lambda>r. user_id r = owner) (rows d2) =
             filter (\<lambda>r. \<not> (user_id r = owner \<and> movie_id r = cid))
               (filter (\<lambda>r. user_id r = owner) (rows d1))"
    by (simp add: conj_commute)
  then have gone: "get_favorites no_faults d2 owner = Inr []"
    by (simp add: get_favorites_no_faults rows1 none)
  have idem: "fst (remove_favorite no_faults d0 u m) = Inr True"
    by (simp add: remove_favorite_no_faults)
  from listed ok gone idem show ?thesis by blast
qed

theorem add_list_remove_list_witness:
  "get_favorites no_faults empty_db 5 = Inr [] \<and>
   add_favorite no_faults empty_db 5 42 (Some (ascii ''Heat'')) None =
     (Inr True, \<lparr>rows = [\<lparr>row_id = 1, user_id = 5, movie_id = 42, title = ascii ''Heat'',
                             poster_path = None\<rparr>], seq = 1\<rparr>) \<and>
   remove_favorite no_faults
     \<lparr>rows = [\<lparr>row_id = 1, user_id = 5, movie_id = 42, title = ascii ''Heat'',
               poster_path = None\<rparr>], seq = 1\<rparr> 5 42 = (Inr True, \<lparr>rows = [], seq = 1\<rparr>) \<and>
   (\<exists>e. get_favorites no_faults
          \<lparr>rows = [\<lparr>row_id = 1, user_id = 5, movie_id = 42, title = ascii ''Heat'',
                    poster_path = None\<rparr>], seq = 1\<rparr> 5 = Inr [e] \<and>
        movie_id e = 42 \<and> Some (title e) = Some (ascii ''Heat'') \<and> user_id e = 5) \<and>
   get_favorites no_faults \<lparr>rows = [], seq = 1\<rparr> 5 = Inr [] \<and>
   fst (remove_favorite no_faults empty_db 5 42) = Inr True"
proof -
  let ?d1 = "\<lparr>rows = [\<lparr>row_id = 1, user_id = 5, movie_id = 42, title = ascii ''Heat'',
                        poster_path = None\<rparr>], seq = 1\<rparr>"
  have e: "get_favorites no_faults empty_db 5 = Inr []"
    by (simp add: get_favorites_no_faults empty_db_def)
  have a: "add_favorite no_faults empty_db 5 42 (Some (ascii ''Heat'')) None = (Inr True, ?d1)"
    by (simp add: add_favorite_def get_db_connection_def no_faults_def empty_db_def)
  have r: "remove_favorite no_faults ?d1 5 42 = (Inr True, \<lparr>rows = [], seq = 1\<rparr>)"
    by (simp add: remove_favorite_no_faults)
  from add_list_remove_list [OF e a r, of empty_db 5 42] e a r show ?thesis
    by simp
qed

lemma statement_faults_reported:
  assumes "\<not> f Connect" and "f Execute \<or> f Commit"
  shows "add_favorite f d uid mid ttl poster = (Inr False, d)"
    and "remove_favorite f d uid mid = (Inr False, d)"
  using assms
  by (auto simp: add_favorite_def remove_favorite_def get_db_connection_def
      split: option.splits)

lemma select_fault_reported:
  assumes "\<not> f Connect" and "f Execute"
  shows "get_favorites f d uid = Inr []"
  using assms by (simp add: get_favorites_def get_db_connection_def)

text \<open>
  C6. The three operations turn a fault of the INSERT, DELETE, SELECT or commit into a
  failure value, but not a fault of opening the connection: there the \<open>finally\<close>
  clause reads the unbound \<open>conn\<close> and \<open>UnboundLocalError\<close> leaves the function.
\<close>

theorem open_fault_leaves_operations:
  "add_favorite connect_fails empty_db 1 2 (Some (ascii ''Heat'')) None =
     (Inl UnboundLocalError, empty_db) \<and>
   remove_favorite connect_fails empty_db 1 2 = (Inl UnboundLocalError, empty_db) \<and>
   get_favorites connect_fails empty_db 1 = Inl UnboundLocalError"
  by (simp add: add_favorite_def remove_favorite_def get_favorites_def
      get_db_connection_def connect_fails_def)

section \<open>Properties of make\_api\_request\<close>

lemma outer_try_fault:
  "connection_fault r \<Longrightarrow>
   outer_try m d a r w = (Continue, backoff m d a w)"
  by (cases r) (simp_all add: connection_fault_def outer_try_def inner_try_def response_block_def)

lemma outer_try_limited:
  "rate_limited d r \<Longrightarrow> outer_try m d a r w = (Continue, w @ [rate_limit_wait d r])"
  by (cases r)
     (auto simp: rate_limited_def rate_limit_wait_def outer_try_def inner_try_def
        response_block_def)

lemma outer_try_ok:
  "outer_try m d a (Response 200 h body) w = (Return body, w)"
  by (simp add: outer_try_def inner_try_def response_block_def)

lemma outer_try_status:
  "s \<noteq> 200 \<Longrightarrow> s \<noteq> 429 \<Longrightarrow>
   outer_try m d a (Response s h body) w = (Continue, backoff m d a w)"
  by (simp add: outer_try_def inner_try_def response_block_def)

lemma response_block_status:
  "s \<noteq> 200 \<Longrightarrow> s \<noteq> 429 \<Longrightarrow>
   response_block d (Response s h body) w = (Raise (APIError (StatusFailed s)), w)"
  by (simp add: response_block_def)

lemma outer_try_never_raises:
  "fst (outer_try m d a r w) \<noteq> Raise e"
  by (simp add: outer_try_def split: prod.splits signal.splits)

lemma request_loop_exhausted:
  "m \<le> int a \<Longrightarrow>
   request_loop m d env a w =
     \<lparr>outcome = Inl (APIError MaxRetriesExceeded), slept = w, attempts = a\<rparr>"
  by (simp add: request_loop.simps)

lemma request_loop_fault_step:
  "int a < m \<Longrightarrow> connection_fault (env a) \<Longrightarrow>
   request_loop m d env a w = request_loop m d env (Suc a) (backoff m d a w)"
  by (subst request_loop.simps) (simp add: outer_try_fault)

lemma request_loop_all_faults:
  assumes "\<And>k. a \<le> k \<Longrightarrow> int k < m \<Longrightarrow> connection_fault (env k)"
    and "int a \<le> m"
  shows "request_loop m d env a w =
     \<lparr>outcome = Inl (APIError MaxRetriesExceeded),
      slept = w @ map (\<lambda>k. d * 2 ^ k) [a..<nat m - 1], attempts = nat m\<rparr>"
  using assms
proof (induction "nat m - a" arbitrary: a w)
  case 0
  then have "m = int a" by simp
  then show ?case by (simp add: request_loop_exhausted)
next
  case (Suc n)
  then have lt: "int a < m" by linarith
  have step: "request_loop m d env a w = request_loop m d env (Suc a) (backoff m d a w)"
    using lt Suc.prems(1) [of a] by (simp add: request_loop_fault_step)
  have ih: "request_loop m d env (Suc a) (backoff m d a w) =
     \<lparr>outcome = Inl (APIError MaxRetriesExceeded),
      slept = backoff m d a w @ map (\<lambda>k. d * 2 ^ k) [Suc a..<nat m - 1], attempts = nat m\<rparr>"
    using Suc.hyps(2) Suc.prems lt by (intro Suc.hyps(1)) auto
  show ?case
  proof (cases "int a < m - 1")
    case True
    then have "a < nat m - 1" by linarith
    then have "[a..<nat m - 1] = a # [Suc a..<nat m - 1]" by (simp add: upt_conv_Cons)
    with True step ih show ?thesis by (simp add: backoff_def)
  next
    case False
    with lt have "nat m - 1 \<le> a" by linarith
    then have "[a..<nat m - 1] = []" "[Suc a..<nat m - 1] = []" by simp_all
    with False step ih show ?thesis by (simp add: backoff_def)
  qed
qed

lemma request_loop_limited_step:
  "int a < m \<Longrightarrow> rate_limited d (env a) \<Longrightarrow>
   request_loop m d env a w = request_loop m d env (Suc a) (w @ [rate_limit_wait d (env a)])"
  by (subst request_loop.simps) (simp add: outer_try_limited)

lemma request_loop_ok_step:
  "int a < m \<Longrightarrow> env a = Response 200 h body \<Longrightarrow>
   request_loop m d env a w = \<lparr>outcome = Inr body, slept = w, attempts = Suc a\<rparr>"
  by (subst request_loop.simps) (simp add: outer_try_ok)

lemma request_loop_limited_then_ok:
  assumes "\<And>i. a \<le> i \<Longrightarrow> i < k \<Longrightarrow> rate_limited d (env i)"
    and "env k = Response 200 h body"
    and "a \<le> k" and "int a \<le> m"
  shows "request_loop m d env a w =
     (if int k < m
      then \<lparr>outcome = Inr body, slept = w @ map (\<lambda>i. rate_limit_wait d (env i)) [a..<k],
            attempts = Suc k\<rparr>
      else \<lparr>outcome = Inl (APIError MaxRetriesExceeded),
            slept = w @ map (\<lambda>i. rate_limit_wait d (env i)) [a..<nat m],
            attempts = nat m\<rparr>)"
  using assms
proof (induction "k - a" arbitrary: a w)
  case 0
  then have ak: "a = k" by simp
  show ?case
  proof (cases "int k < m")
    case True
    with ak "0.prems"(2) show ?thesis by (simp add: request_loop_ok_step)
  next
    case False
    with ak "0.prems"(4) have "m = int a" by simp
    then show ?thesis using ak by (simp add: request_loop_exhausted)
  qed
next
  case (Suc n)
  then have ak: "a < k" by simp
  show ?case
  proof (cases "int a < m")
    case True
    have step: "request_loop m d env a w =
                request_loop m d env (Suc a) (w @ [rate_limit_wait d (env a)])"
      using True Suc.prems(1) [of a] ak by (simp add: request_loop_limited_step)
    have ih: "request_loop m d env (Suc a) (w @ [rate_limit_wait d (env a)]) =
     (if int k < m
      then \<lparr>outcome = Inr body,
            slept = (w @ [rate_limit_wait d (env a)]) @
                    map (\<lambda>i. rate_limit_wait d (env i)) [Suc a..<k],
            attempts = Suc k\<rparr>
      else \<lparr>outcome = Inl (APIError MaxRetriesExceeded),
            slept = (w @ [rate_limit_wait d (env a)]) @
                    map (\<lambda>i. rate_limit_wait d (env i)) [Suc a..<nat m],
            attempts = nat m\<rparr>)"
      using Suc.hyps(2) Suc.prems True ak by (intro Suc.hyps(1)) auto
    from True have "a < nat m" by linarith
    then have "[a..<nat m] = a # [Suc a..<nat m]" by (simp add: upt_conv_Cons)
    moreover from ak have "[a..<k] = a # [Suc a..<k]" by (simp add: upt_conv_Cons)
    ultimately show ?thesis using step ih by simp
  next
    case False
    with Suc.prems(4) have "m = int a" by simp
    then show ?thesis using ak by (simp add: request_loop_exhausted)
  qed
qed

text \<open>
  C3, as the code has it. A 429 whose \<open>Retry-After\<close> header is absent or accepted by
  \<open>int\<close> makes the call sleep for the header's seconds (\<open>retry_delay\<close> when absent),
  and it uses up one of the \<open>max_retries\<close> passes of the loop: after \<open>k\<close> such
  answers in a row followed by a 200, the call returns the parsed body when
  \<open>k < max_retries\<close>, having slept once per 429 and made \<open>k + 1\<close> requests, and
  raises \<open>APIError("Max retries exceeded")\<close> after \<open>max_retries\<close> requests otherwise.
\<close>

theorem rate_limit_uses_attempts:
  assumes limited: "\<And>i. i < k \<Longrightarrow> rate_limited retry_delay (env i)"
    and ok: "env k = Response 200 h body"
    and budget: "0 \<le> max_retries"
  shows "make_api_request max_retries retry_delay env =
     (if int k < max_retries
      then \<lparr>outcome = Inr body,
            slept = map (\<lambda>i. rate_limit_wait retry_delay (env i)) [0..<k],
            attempts = Suc k\<rparr>
      else \<lparr>outcome = Inl (APIError MaxRetriesExceeded),
            slept = map (\<lambda>i. rate_limit_wait retry_delay (env i)) [0..<nat max_retries],
            attempts = nat max_retries\<rparr>) \<and>
     rate_limit_wait retry_delay (Response 429 Absent b) = retry_delay \<and>
     rate_limit_wait retry_delay (Response 429 (Seconds n) b) = n"
proof -
  have "request_loop max_retries retry_delay env 0 [] =
     (if int k < max_retries
      then \<lparr>outcome = Inr body,
            slept = [] @ map (\<lambda>i. rate_limit_wait retry_delay (env i)) [0..<k],
            attempts = Suc k\<rparr>
      else \<lparr>outcome = Inl (APIError MaxRetriesExceeded),
            slept = [] @ map (\<lambda>i. rate_limit_wait retry_delay (env i)) [0..<nat max_retries],
            attempts = nat max_retries\<rparr>)"
    using limited ok budget by (intro request_loop_limited_then_ok) auto
  then show ?thesis
    by (simp add: make_api_request_def rate_limit_wait_def)
qed

theorem rate_limit_uses_attempts_witness:
  "make_api_request 3 1
     (\<lambda>i. if i < 2 then Response 429 (Seconds 2) JNull else Response 200 Absent (JInt 7)) =
     \<lparr>outcome = Inr (JInt 7), slept = [2, 2], attempts = 3\<rparr> \<and>
   make_api_request 2 1
     (\<lambda>i. if i < 2 then Response 429 Absent JNull else Response 200 Absent (JInt 7)) =
     \<lparr>outcome = Inl (APIError MaxRetriesExceeded), slept = [1, 1], attempts = 2\<rparr>"
proof -
  let ?e = "\<lambda>i::nat. if i < 2 then Response 429 (Seconds 2) JNull
                      else Response 200 Absent (JInt 7)"
  let ?e' = "\<lambda>i::nat. if i < 2 then Response 429 Absent JNull
                      else Response 200 Absent (JInt 7)"
  have u: "[0..<2] = [0, Suc 0]" by (simp add: upt_conv_Cons)
  have l: "\<And>i. i < 2 \<Longrightarrow> rate_limited 1 (?e i)"
    by (simp add: rate_limited_def)
  have l': "\<And>i. i < 2 \<Longrightarrow> rate_limited 1 (?e' i)"
    by (simp add: rate_limited_def)
  have "?e 2 = Response 200 Absent (JInt 7)" by simp
  from rate_limit_uses_attempts [of 2 1 ?e Absent "JInt 7" 3, OF l this]
  have a: "make_api_request 3 1 ?e = \<lparr>outcome = Inr (JInt 7), slept = [2, 2], attempts = 3\<rparr>"
    by (simp add: rate_limit_wait_def u)
  have "?e' 2 = Response 200 Absent (JInt 7)" by simp
  from rate_limit_uses_attempts [of 2 1 ?e' Absent "JInt 7" 2, OF l' this]
  have b: "make_api_request 2 1 ?e' =
     \<lparr>outcome = Inl (APIError MaxRetriesExceeded), slept = [1, 1], attempts = 2\<rparr>"
    by (simp add: rate_limit_wait_def u)
  from a b show ?thesis by simp
qed

text \<open>
  The claim C3 as stated fails: with the default \<open>max_retries = 3\<close>, three 429 answers
  followed by a 200 do not return the body; the fourth request is never made.
\<close>

theorem rate_limit_exhausts_retries:
  "make_api_request 3 1
     (\<lambda>i. if i < 3 then Response 429 (Seconds 2) JNull else Response 200 Absent (JInt 7)) =
   \<lparr>outcome = Inl (APIError MaxRetriesExceeded), slept = [2, 2, 2], attempts = 3\<rparr>"
  by (simp add: make_api_request_def request_loop.simps outer_try_def inner_try_def
      response_block_def)

text \<open>
  C4. A status other than 200 and 429 raises \<open>APIError\<close> inside the outer \<open>try\<close>,
  whose \<open>except Exception\<close> catches it: the call backs off and asks again. Here a 404
  is followed by one second of sleep, a second request, and the body of its 200.
\<close>

theorem status_error_is_retried:
  "make_api_request 3 1
     (\<lambda>i. if i = 0 then Response 404 Absent JNull else Response 200 Absent (JInt 7)) =
   \<lparr>outcome = Inr (JInt 7), slept = [1], attempts = 2\<rparr>"
  by (simp add: make_api_request_def request_loop.simps outer_try_def inner_try_def
      response_block_def backoff_def)

lemma status_error_never_surfaces:
  "make_api_request 3 1 (\<lambda>i. Response 500 Absent JNull) =
   \<lparr>outcome = Inl (APIError MaxRetriesExceeded), slept = [1, 2], attempts = 3\<rparr>"
  by (simp add: make_api_request_def request_loop.simps outer_try_def inner_try_def
      response_block_def backoff_def)

text \<open>
  C5. When every pass meets a connection-level fault, the call makes exactly
  \<open>max_retries\<close> requests, sleeps \<open>retry_delay * 2 ^ k\<close> after the failed pass \<open>k\<close> for
  \<open>k = 0, \<dots>, max_retries - 2\<close> and not after the last one, and then raises
  \<open>APIError("Max retries exceeded")\<close>.
\<close>

theorem always_faulting_endpoint:
  assumes faults: "\<And>k. int k < max_retries \<Longrightarrow> connection_fault (env k)"
  shows "make_api_request max_retries retry_delay env =
     \<lparr>outcome = Inl (APIError MaxRetriesExceeded),
      slept = map (\<lambda>k. retry_delay * 2 ^ k) [0..<nat max_retries - 1],
      attempts = nat max_retries\<rparr> \<and>
     sum_list (slept (make_api_request max_retries retry_delay env)) =
       (\<Sum>k = 0..<nat max_retries - 1. retry_delay * 2 ^ k)"
proof -
  have run: "make_api_request max_retries retry_delay env =
     \<lparr>outcome = Inl (APIError MaxRetriesExceeded),
      slept = map (\<lambda>k. retry_delay * 2 ^ k) [0..<nat max_retries - 1],
      attempts = nat max_retries\<rparr>"
  proof (cases "0 \<le> max_retries")
    case True
    have "request_loop max_retries retry_delay env 0 [] =
     \<lparr>outcome = Inl (APIError MaxRetriesExceeded),
      slept = [] @ map (\<lambda>k. retry_delay * 2 ^ k) [0..<nat max_retries - 1],
      attempts = nat max_retries\<rparr>"
      using faults True by (intro request_loop_all_faults) auto
    then show ?thesis by (simp add: make_api_request_def)
  next
    case False
    then show ?thesis by (simp add: make_api_request_def request_loop_exhausted)
  qed
  then show ?thesis
    by (simp add: interv_sum_list_conv_sum_set_nat)
qed

theorem always_faulting_endpoint_witness:
  "connection_fault ClientFault \<and>
   make_api_request 3 1 (\<lambda>k. ClientFault) =
     \<lparr>outcome = Inl (APIError MaxRetriesExceeded), slept = [1, 2], attempts = 3\<rparr> \<and>
   sum_list (slept (make_api_request 3 1 (\<lambda>k. ClientFault))) = 3"
proof -
  have f: "\<And>k. int k < 3 \<Longrightarrow> connection_fault ((\<lambda>k. ClientFault) k)"
    by (simp add: connection_fault_def)
  have u: "[0..<2] = [0, Suc 0]" by (simp add: upt_conv_Cons)
  from always_faulting_endpoint [of 3 "\<lambda>k. ClientFault" 1, OF f]
  show ?thesis by (simp add: u connection_fault_def)
qed

lemma unparsable_retry_after_backs_off:
  "outer_try m d a (Response 429 Unparsable body) w = (Continue, backoff m d a w)"
  by (simp add: outer_try_def inner_try_def response_block_def)

section \<open>Properties of the navigation handler\<close>

lemma ascii_eq_iff [simp]: "ascii s = ascii t \<longleftrightarrow> s = t"
proof -
  have "inj (of_char :: char \<Rightarrow> nat)"
    by (rule injI) simp
  then have "inj (map (of_char :: char \<Rightarrow> nat))"
    by simp
  then show ?thesis
    by (auto simp: ascii_def dest: injD)
qed

lemma prev_next_differ: "prev_of v \<noteq> next_of v"
  by (cases v) simp_all

lemma state_after_finish [simp]: "state_after (finish s r) = s"
  by (simp add: finish_def split: sum.splits)

lemma stored_cursor_update [simp]: "stored (s\<lparr>current_page := x\<rparr>) key = stored s key"
  by (cases key) simp_all

lemma state_after_show_at [simp]:
  "state_after (show_at s show results ct cp) = s\<lparr>current_page := Some cp\<rparr>"
  by (simp add: show_at_def)

lemma finish_nothing: "finish s (Inr []) = \<lparr>state_after = s, effects = [], fault = None\<rparr>"
  by (simp add: finish_def)

lemma navigate_keeps_range:
  assumes "stored s (key_of v) = Some xs" and "current_page s = Some c"
    and "0 \<le> c" and "c < int (length xs)"
  shows "\<exists>c'. current_page (state_after (navigate v cb s)) = Some c' \<and> 0 \<le> c' \<and>
              c' < int (length xs) \<and>
              stored (state_after (navigate v cb s)) (key_of v) = Some xs"
  using assms by (auto simp: navigate_def handle_navigation_def Let_def)

lemma run_events_keeps_range:
  assumes "stored s (key_of v) = Some xs" and "current_page s = Some c"
    and "0 \<le> c" and "c < int (length xs)"
  shows "\<exists>c'. current_page (run_events v cbs s) = Some c' \<and> 0 \<le> c' \<and>
              c' < int (length xs) \<and> stored (run_events v cbs s) (key_of v) = Some xs"
  using assms
proof (induction cbs arbitrary: s c)
  case Nil
  then show ?case by simp
next
  case (Cons cb cbs)
  from navigate_keeps_range [OF Cons.prems, of cb]
  obtain c' where "current_page (state_after (navigate v cb s)) = Some c'"
    and "0 \<le> c'" and "c' < int (length xs)"
    and "stored (state_after (navigate v cb s)) (key_of v) = Some xs"
    by blast
  from Cons.IH [OF this(4) this(1) this(2) this(3)] show ?case by simp
qed

lemma advance_at_last:
  assumes "stored s (key_of v) = Some xs" and "current_page s = Some c"
    and "cb_data cb = Some (next_of v)" and "c = int (length xs) - 1"
  shows "navigate v cb s = \<lparr>state_after = s, effects = [], fault = None\<rparr>"
  using assms prev_next_differ [of v]
  by (auto simp: navigate_def handle_navigation_def Let_def finish_nothing)

lemma retreat_at_first:
  assumes "current_page s = Some 0"
  shows "navigate v cb s = \<lparr>state_after = s, effects = [], fault = None\<rparr> \<or>
         cb_data cb = Some (next_of v)"
  using assms
  by (auto simp: navigate_def handle_navigation_def Let_def finish_nothing)


text \<open>
  C1. While a view holds a non-empty result list of length \<open>n\<close> with the cursor in
  \<open>[0, n - 1]\<close>, any sequence of button presses handled by the view's navigation
  handlers leaves the list as it is and the cursor in \<open>[0, n - 1]\<close>; a press of
  ``next'' at cursor \<open>n - 1\<close> and a press of ``previous'' at cursor \<open>0\<close> change
  nothing, send nothing and raise nothing.
\<close>

theorem cursor_stays_in_range:
  assumes held: "stored s (key_of v) = Some xs" and cur: "current_page s = Some c"
    and lo: "0 \<le> c" and hi: "c < int (length xs)"
  shows "(\<exists>c'. current_page (run_events v cbs s) = Some c' \<and> 0 \<le> c' \<and>
               c' \<le> int (length xs) - 1 \<and>
               stored (run_events v cbs s) (key_of v) = Some xs) \<and>
         (cb_data cb = Some (next_of v) \<and> c = int (length xs) - 1 \<longrightarrow>
            navigate v cb s = \<lparr>state_after = s, effects = [], fault = None\<rparr>) \<and>
         (cb_data cb = Some (prev_of v) \<and> c = 0 \<longrightarrow>
            navigate v cb s = \<lparr>state_after = s, effects = [], fault = None\<rparr>)"
proof -
  from run_events_keeps_range [OF held cur lo hi, of cbs]
  have "\<exists>c'. current_page (run_events v cbs s) = Some c' \<and> 0 \<le> c' \<and>
               c' \<le> int (length xs) - 1 \<and>
               stored (run_events v cbs s) (key_of v) = Some xs"
    by auto
  moreover have "navigate v cb s = \<lparr>state_after = s, effects = [], fault = None\<rparr>"
    if "cb_data cb = Some (next_of v)" and "c = int (length xs) - 1"
    using advance_at_last [OF held cur that] .
  moreover have "navigate v cb s = \<lparr>state_after = s, effects = [], fault = None\<rparr>"
    if "cb_data cb = Some (prev_of v)" and "c = 0"
    using retreat_at_first [of s v cb] cur that prev_next_differ [of v] by auto
  ultimately show ?thesis by blast
qed

theorem cursor_stays_in_range_witness:
  "stored (browsing 0) (key_of SearchView) = Some [film_a, series_b] \<and>
   current_page (browsing 0) = Some 0 \<and>
   (\<exists>c'. current_page
            (run_events SearchView
               [press ''next_page'', press ''next_page'', press ''prev_page'']
               (browsing 0)) = Some c' \<and> 0 \<le> c' \<and> c' \<le> 1) \<and>
   navigate SearchView (press ''prev_page'') (browsing 0) =
     \<lparr>state_after = browsing 0, effects = [], fault = None\<rparr> \<and>
   navigate SearchView (press ''next_page'') (browsing 1) =
     \<lparr>state_after = browsing 1, effects = [], fault = None\<rparr>"
proof -
  have h0: "stored (browsing 0) (key_of SearchView) = Some [film_a, series_b]"
    and c0: "current_page (browsing 0) = Some 0"
    and h1: "stored (browsing 1) (key_of SearchView) = Some [film_a, series_b]"
    and c1: "current_page (browsing 1) = Some 1"
    by (simp_all add: browsing_def)
  have p: "cb_data (press ''prev_page'') = Some (prev_of SearchView)"
    and n: "cb_data (press ''next_page'') = Some (next_of SearchView)"
    by (simp_all add: press_def)
  from cursor_stays_in_range [OF h0 c0, of
      "[press ''next_page'', press ''next_page'', press ''prev_page'']" "press ''prev_page''"]
    cursor_stays_in_range [OF h1 c1, of "[]" "press ''next_page''"] h0 c0 p n
  show ?thesis by auto
qed

lemma slice4_error: "slice4 v = Inl e \<Longrightarrow> e = TypeError"
  by (cases v) simp_all

lemma release_year_error: "release_year kvs = Inl e \<Longrightarrow> e = TypeError"
  by (simp add: release_year_def slice4_error)

lemma render_error: "render fn release_year p n item cp tp = Inl e \<Longrightarrow> e = TypeError"
  by (auto simp: render_def split: json.splits option.splits if_splits sum.splits
      dest: release_year_error)

lemma call_show_error: "call_show sf item ct cp n = Inl e \<Longrightarrow> e = TypeError"
  by (cases sf)
     (auto simp: show_search_results_def show_popular_content_def dest: render_error)

text \<open>
  C10, as the code has it. With no result list under the handler's key (or an empty
  one) and the cursor absent or 0, every button press is a no-op: nothing is indexed,
  nothing is sent or raised, and the session is unchanged. An absent cursor is read as
  0: with a stored list of at least two items, ``next'' moves the cursor to 1. A press
  that is not ``previous'' indexes the list only at \<open>cursor + 1\<close>, after checking that
  \<open>cursor < length - 1\<close>, so with a cursor that is absent or not negative it cannot
  raise \<open>IndexError\<close>.
\<close>

theorem navigation_without_session:
  assumes nolist: "stored s key = None \<or> stored s key = Some []"
    and nocursor: "current_page s = None \<or> current_page s = Some 0"
  shows "handle_navigation cb s key show p n =
           \<lparr>state_after = s, effects = [], fault = None\<rparr> \<and>
         (current_page t = None \<and> stored t key = Some xs \<and> 2 \<le> length xs \<and>
          message_chat cb \<noteq> None \<and> cb_data cb = Some n \<and> n \<noteq> p \<longrightarrow>
            state_after (handle_navigation cb t key show p n) =
              t\<lparr>current_page := Some 1\<rparr>) \<and>
         ((current_page u = None \<or> (\<exists>c. current_page u = Some c \<and> 0 \<le> c)) \<and>
          cb_data cb \<noteq> Some p \<longrightarrow>
            fault (handle_navigation cb u key show p n) \<noteq> Some IndexError)"
proof -
  have a: "handle_navigation cb s key show p n =
           \<lparr>state_after = s, effects = [], fault = None\<rparr>"
    using nolist nocursor
    by (auto simp: handle_navigation_def Let_def finish_nothing)
  have b: "state_after (handle_navigation cb t key show p n) = t\<lparr>current_page := Some 1\<rparr>"
    if "current_page t = None" "stored t key = Some xs" "2 \<le> length xs"
      "message_chat cb \<noteq> None" "cb_data cb = Some n" "n \<noteq> p"
    using that by (auto simp: handle_navigation_def Let_def)
  have c: "fault (handle_navigation cb u key show p n) \<noteq> Some IndexError"
    if "current_page u = None \<or> (\<exists>c. current_page u = Some c \<and> 0 \<le> c)"
      and "cb_data cb \<noteq> Some p"
    using that
    by (auto simp: handle_navigation_def Let_def finish_def show_at_def py_index_def
        split: sum.splits dest: call_show_error)
  from a b c show ?thesis by blast
qed


theorem navigation_without_session_witness:
  "handle_navigation (press ''next_page'') cleared SearchResults ShowSearchResults
     (ascii ''prev_page'') (ascii ''next_page'') =
     \<lparr>state_after = cleared, effects = [], fault = None\<rparr> \<and>
   state_after (handle_navigation (press ''next_page'') unpaged SearchResults
     ShowSearchResults (ascii ''prev_page'') (ascii ''next_page'')) =
     unpaged\<lparr>current_page := Some 1\<rparr> \<and>
   fault (handle_navigation (press ''next_page'') (browsing 0) SearchResults
     ShowSearchResults (ascii ''prev_page'') (ascii ''next_page'')) \<noteq> Some IndexError"
proof -
  have a: "stored cleared SearchResults = None \<or> stored cleared SearchResults = Some []"
    and b: "current_page cleared = None \<or> current_page cleared = Some 0"
    by (simp_all add: cleared_def)
  from navigation_without_session [OF a b, of "press ''next_page''" ShowSearchResults
      "ascii ''prev_page''" "ascii ''next_page''" unpaged "[film_a, series_b]" "browsing 0"]
  show ?thesis
    by (simp add: unpaged_def browsing_def cleared_def press_def)
qed

text \<open>
  The claim C10 as stated fails: with the cursor absent and two results stored, a press
  of ``next'' is not a no-op.
\<close>

theorem absent_cursor_advances:
  "current_page unpaged = None \<and>
   state_after (navigate SearchView (press ''next_page'') unpaged) =
     unpaged\<lparr>current_page := Some 1\<rparr> \<and>
   state_after (navigate SearchView (press ''next_page'') unpaged) \<noteq> unpaged"
  by (simp add: navigate_def handle_navigation_def Let_def unpaged_def cleared_def press_def)

text \<open>
  A press of ``previous'' is checked against 0 only. After a search left the cursor at
  3, a press of \<open>prev_favorite\<close> with no favorites stored writes cursor 2 and raises
  \<open>IndexError\<close>.
\<close>

lemma stale_retreat_raises:
  "navigate FavoritesView (press ''prev_favorite'') stale_cursor =
     \<lparr>state_after = stale_cursor\<lparr>current_page := Some 2\<rparr>, effects = [],
      fault = Some IndexError\<rparr>"
  by (simp add: navigate_def handle_navigation_def Let_def stale_cursor_def cleared_def
      press_def show_at_def finish_def py_index_def)

text \<open>
  The navigation handlers of the similar and favorites views pass five arguments to a
  rendering function of four parameters: every press that moves the cursor ends in
  \<open>TypeError\<close>, after the cursor was written.
\<close>

lemma four_parameter_views_raise:
  assumes "v = SimilarView \<or> v = FavoritesView"
    and "stored s (key_of v) = Some xs" and "current_page s = Some c"
    and "0 \<le> c" and "c + 1 < int (length xs)"
    and "message_chat cb \<noteq> None" and "cb_data cb = Some (next_of v)"
  shows "navigate v cb s =
     \<lparr>state_after = s\<lparr>current_page := Some (c + 1)\<rparr>, effects = [], fault = Some TypeError\<rparr>"
  using assms prev_next_differ [of v]
  by (auto simp: navigate_def handle_navigation_def Let_def show_at_def finish_def
      py_index_def)


section \<open>Properties of the search and of the rendered year\<close>

lemma keep_media_dicts:
  "list_all is_dict items \<Longrightarrow> keep_media items = Inr (filter movie_or_tv items)"
proof (induction items)
  case Nil
  then show ?case by simp
next
  case (Cons item items)
  then obtain kvs where "item = JObj kvs"
    by (cases item) simp_all
  with Cons show ?case by simp
qed

lemma default_request_ok:
  "env 0 = Response 200 h body \<Longrightarrow> outcome (make_api_request_default env) = Inr body"
  by (simp add: make_api_request_default_def make_api_request_def request_loop_ok_step)

text \<open>
  C8. When the provider's search response is a dict whose \<open>results\<close> is a non-empty
  list of dicts, the result list written to the session is exactly the sublist of the
  entries whose \<open>media_type\<close> is \<open>movie\<close> or \<open>tv\<close>, in the order of the response.
\<close>

theorem search_keeps_movies_and_tv:
  assumes asked: "msg_text msg = Some q" "q \<noteq> []"
    and fetched: "outcome (make_api_request_default env) = Inr (JObj kvs)"
    and results: "map_of kvs (ascii ''results'') = Some (JList items)" "items \<noteq> []"
    and dicts: "list_all is_dict items"
  shows "search_results (state_after (process_search_query msg env s)) =
           Some (filter movie_or_tv items) \<and>
         subseq (filter movie_or_tv items) items \<and>
         current_page (state_after (process_search_query msg env s)) = Some 0"
  using assms
  by (simp add: process_search_query_def keep_media_dicts)

theorem search_keeps_movies_and_tv_witness:
  "outcome (make_api_request_default (provider_ok mixed_response)) = Inr mixed_response \<and>
   list_all is_dict [film_a, person_c, series_b] \<and>
   filter movie_or_tv [film_a, person_c, series_b] = [film_a, series_b] \<and>
   search_results (state_after (process_search_query query (provider_ok mixed_response)
     cleared)) = Some [film_a, series_b]"
proof -
  have f: "outcome (make_api_request_default (provider_ok mixed_response)) =
           Inr (JObj [(ascii ''page'', JInt 1),
                      (ascii ''results'', JList [film_a, person_c, series_b])])"
    by (simp add: default_request_ok provider_ok_def mixed_response_def)
  have r: "map_of [(ascii ''page'', JInt 1),
                   (ascii ''results'', JList [film_a, person_c, series_b])]
             (ascii ''results'') = Some (JList [film_a, person_c, series_b])"
    by simp
  have d: "list_all is_dict [film_a, person_c, series_b]"
    by (simp add: film_a_def person_c_def series_b_def)
  have k: "filter movie_or_tv [film_a, person_c, series_b] = [film_a, series_b]"
    by (simp add: film_a_def person_c_def series_b_def)
  have q: "msg_text query = Some (ascii ''nolan'')" "ascii ''nolan'' \<noteq> []"
    by (simp_all add: query_def ascii_def)
  from search_keeps_movies_and_tv [OF q f r _ d, of cleared] f d k
  show ?thesis by (simp add: mixed_response_def)
qed

text \<open>
  When the filter keeps nothing (a response of people only), the empty list is written
  to the session and \<open>results[0]\<close> raises \<open>IndexError\<close>.
\<close>

lemma people_only_raises:
  "process_search_query query (provider_ok (JObj [(ascii ''results'', JList [person_c])]))
     cleared =
   \<lparr>state_after = cleared\<lparr>search_results := Some [], current_page := Some 0,
                           total_pages := Some 0, content_type := Some (ascii ''search'')\<rparr>,
    effects = [], fault = Some IndexError\<rparr>"
  by (simp add: process_search_query_def default_request_ok provider_ok_def query_def
      person_c_def finish_def py_index_def ascii_def)

text \<open>
  C9, as the code has it. When the item's date value (\<open>release_date\<close> if the key is
  present, else \<open>first_air_date\<close>) is a string, the year shown for a rendered item is
  that string cut to its first four characters: the first four when it has at least
  four, and the whole string when it is shorter, the empty string included. No
  placeholder replaces a short or empty date.
\<close>

theorem year_is_date_prefix:
  assumes date: "map_of item (ascii ''release_date'') = Some (JStr d) \<or>
                 (map_of item (ascii ''release_date'') = None \<and>
                  map_of item (ascii ''first_air_date'') = Some (JStr d))"
    and ident: "map_of item (ascii ''id'') = Some i" "truthy i"
  shows "(\<exists>p. show_search_results (JObj item) ct cp n = Inr [Page p] \<and>
               year p = JStr (take 4 d)) \<and>
         release_year item = Inr (JStr (take 4 d)) \<and>
         (4 \<le> length d \<longrightarrow> length (take 4 d) = 4 \<and> (\<forall>k<4. take 4 d ! k = d ! k)) \<and>
         (length d < 4 \<longrightarrow> take 4 d = d)"
proof -
  from date have "date_field item = JStr d"
    by (auto simp: date_field_def)
  then have y: "release_year item = Inr (JStr (take 4 d))"
    by (simp add: release_year_def)
  with ident have "\<exists>p. show_search_results (JObj item) ct cp n = Inr [Page p] \<and>
               year p = JStr (take 4 d)"
    by (simp add: show_search_results_def render_def)
  with y show ?thesis by simp
qed

theorem year_is_date_prefix_witness:
  "release_year [(ascii ''id'', JInt 27205),
                 (ascii ''release_date'', JStr (ascii ''2010-07-16''))] =
     Inr (JStr (ascii ''2010'')) \<and>
   release_year [(ascii ''id'', JInt 1396),
                 (ascii ''first_air_date'', JStr (ascii ''208''))] =
     Inr (JStr (ascii ''208''))"
proof -
  have a: "map_of [(ascii ''id'', JInt 27205),
                   (ascii ''release_date'', JStr (ascii ''2010-07-16''))]
             (ascii ''release_date'') = Some (JStr (ascii ''2010-07-16'')) \<or>
           (map_of [(ascii ''id'', JInt 27205),
                    (ascii ''release_date'', JStr (ascii ''2010-07-16''))]
              (ascii ''release_date'') = None \<and>
            map_of [(ascii ''id'', JInt 27205),
                    (ascii ''release_date'', JStr (ascii ''2010-07-16''))]
              (ascii ''first_air_date'') = Some (JStr (ascii ''2010-07-16'')))"
    by simp
  have b: "map_of [(ascii ''id'', JInt 1396),
                   (ascii ''first_air_date'', JStr (ascii ''208''))]
             (ascii ''release_date'') = Some (JStr (ascii ''208'')) \<or>
           (map_of [(ascii ''id'', JInt 1396),
                    (ascii ''first_air_date'', JStr (ascii ''208''))]
              (ascii ''release_date'') = None \<and>
            map_of [(ascii ''id'', JInt 1396),
                    (ascii ''first_air_date'', JStr (ascii ''208''))]
              (ascii ''first_air_date'') = Some (JStr (ascii ''208'')))"
    by simp
  from year_is_date_prefix [OF a, of "JInt 27205"] year_is_date_prefix [OF b, of "JInt 1396"]
  show ?thesis by (simp add: ascii_def)
qed

text \<open>
  The claim C9 as stated fails: an item whose date string is empty is rendered with an
  empty year, not with the placeholder.
\<close>

theorem empty_date_shows_empty_year:
  "(\<exists>p. show_search_results undated (ascii ''search'') 0 1 = Inr [Page p] \<and>
        year p = JStr [] \<and> year p \<noteq> JStr unknown_year)"
  by (simp add: show_search_results_def render_def release_year_def date_field_def
      undated_def unknown_year_def)

text \<open>
  With no date key at all the placeholder itself is cut to four characters, and a
  \<open>null\<close> date raises \<open>TypeError\<close>.
\<close>

lemma absent_date_cuts_placeholder:
  "release_year [(ascii ''id'', JInt 1)] = Inr (JStr [1053, 1077, 1080, 1079]) \<and>
   JStr [1053, 1077, 1080, 1079] \<noteq> JStr unknown_year"
  by (simp add: release_year_def date_field_def unknown_year_def)

lemma null_date_raises:
  "release_year [(ascii ''id'', JInt 1), (ascii ''release_date'', JNull)] = Inl TypeError"
  by (simp add: release_year_def date_field_def)


section \<open>Properties of removing a favorite\<close>

lemma drop_movie_favorites:
  "drop_movie mid (map favorite_dict rws) =
     Inr (map favorite_dict (filter (\<lambda>r. movie_id r \<noteq> mid) rws))"
  by (induction rws) (simp_all add: favorite_dict_def)

lemma show_favorites_page_ok:
  "\<exists>es. show_favorites_page (favorite_dict r) cp n = Inr es"
  by (simp add: show_favorites_page_def render_def favorite_dict_def release_year_def
      date_field_def)

lemma py_index_in_range:
  "0 \<le> i \<Longrightarrow> i < int (length xs) \<Longrightarrow> py_index xs i = Inr (xs ! nat i)"
  by (simp add: py_index_def)

lemma remove_current_run:
  assumes fav: "favorites s = Some (map favorite_dict rws)"
    and cur: "current_page s = Some c" and lo: "0 \<le> c"
    and press: "message_chat cb = Some chat" "cb_data cb = Some data" "data \<noteq> []"
      "py_int (last_segment data) = Some mid"
    and kept: "kept = filter (\<lambda>r. movie_id r \<noteq> mid) rws"
  shows "snd (remove_from_favorites py_int cb no_faults d s) =
     (if kept = []
      then \<lparr>state_after = s, effects = [Toast Removed, Notice NoFavorites], fault = None\<rparr>
      else finish_after [Toast Removed]
             (s\<lparr>favorites := Some (map favorite_dict kept),
                current_page := Some (if c \<ge> int (length kept) then int (length kept) - 1
                                      else c)\<rparr>)
             (show_favorites_page
                (map favorite_dict kept !
                   nat (if c \<ge> int (length kept) then int (length kept) - 1 else c))
                (if c \<ge> int (length kept) then int (length kept) - 1 else c)
                (int (length kept))))"
proof (cases "kept = []")
  case True
  with assms show ?thesis
    by (simp add: remove_from_favorites_def remove_favorite_no_faults drop_movie_favorites
        finish_after_def)
next
  case False
  let ?c = "if c \<ge> int (length kept) then int (length kept) - 1 else c"
  from False lo have "0 \<le> ?c" "?c < int (length (map favorite_dict kept))"
    by auto
  then have "py_index (map favorite_dict kept) ?c = Inr (map favorite_dict kept ! nat ?c)"
    by (rule py_index_in_range)
  with False fav cur press show ?thesis
    unfolding kept
    by (simp add: remove_from_favorites_def remove_favorite_no_faults drop_movie_favorites
        Let_def)
qed

text \<open>
  C2, as the code has it. In a favorites session of \<open>n\<close> entries with the cursor on an
  entry of content id \<open>mid\<close>, pressing its remove button (storage working) drops every
  entry with that id. When \<open>mid\<close> occurs once and \<open>n > 1\<close>, the session is left with
  \<open>n - 1\<close> entries and the cursor \<open>min c (n - 2)\<close>, within \<open>[0, n - 2]\<close>, and nothing
  is raised. When every entry has id \<open>mid\<close> (so when \<open>n = 1\<close>), the empty-state notice
  is sent and the session data is left as it was.
\<close>

theorem remove_current_favorite:
  assumes fav: "favorites s = Some (map favorite_dict rws)"
    and cur: "current_page s = Some c" and lo: "0 \<le> c" and hi: "c < int (length rws)"
    and at_cursor: "movie_id (rws ! nat c) = mid"
    and press: "message_chat cb = Some chat" "cb_data cb = Some data" "data \<noteq> []"
      "py_int (last_segment data) = Some mid"
  shows "(length (filter (\<lambda>r. movie_id r = mid) rws) = 1 \<and> 1 < length rws \<longrightarrow>
            (\<exists>kept c'.
               favorites (state_after (snd (remove_from_favorites py_int cb no_faults d s))) =
                 Some kept \<and>
               length kept = length rws - 1 \<and>
               current_page (state_after (snd (remove_from_favorites py_int cb no_faults d s))) =
                 Some c' \<and>
               c' = min c (int (length rws) - 2) \<and> 0 \<le> c' \<and> c' \<le> int (length rws) - 2 \<and>
               fault (snd (remove_from_favorites py_int cb no_faults d s)) = None)) \<and>
         ((\<forall>r \<in> set rws. movie_id r = mid) \<longrightarrow>
            snd (remove_from_favorites py_int cb no_faults d s) =
              \<lparr>state_after = s, effects = [Toast Removed, Notice NoFavorites],
               fault = None\<rparr>) \<and>
         (length rws = 1 \<longrightarrow> (\<forall>r \<in> set rws. movie_id r = mid))"
proof -
  define kept where "kept = filter (\<lambda>r. movie_id r \<noteq> mid) rws"
  let ?h = "snd (remove_from_favorites py_int cb no_faults d s)"
  note run = remove_current_run [where py_int = py_int and d = d, OF fav cur lo press kept_def]
  have once: "\<exists>kept' c'. favorites (state_after ?h) = Some kept' \<and>
               length kept' = length rws - 1 \<and>
               current_page (state_after ?h) = Some c' \<and>
               c' = min c (int (length rws) - 2) \<and> 0 \<le> c' \<and> c' \<le> int (length rws) - 2 \<and>
               fault ?h = None"
    if one: "length (filter (\<lambda>r. movie_id r = mid) rws) = 1" and more: "1 < length rws"
  proof -
    have "length (filter (\<lambda>r. movie_id r = mid) rws) + length kept = length rws"
      unfolding kept_def by (rule sum_length_filter_compl)
    with one have len: "length kept = length rws - 1" by simp
    with more have ne: "kept \<noteq> []" by auto
    let ?c = "if c \<ge> int (length kept) then int (length kept) - 1 else c"
    obtain es where es: "show_favorites_page (map favorite_dict kept ! nat ?c) ?c
                           (int (length kept)) = Inr es"
    proof -
      from ne have "0 < int (length kept)" by simp
      with lo have "0 \<le> ?c" "?c < int (length kept)" by auto
      then have "nat ?c < length kept" by linarith
      then have "map favorite_dict kept ! nat ?c = favorite_dict (kept ! nat ?c)"
        by simp
      with show_favorites_page_ok [of "kept ! nat ?c" ?c "int (length kept)"] that
      show ?thesis by auto
    qed
    from run ne es have h: "?h = \<lparr>state_after = s\<lparr>favorites := Some (map favorite_dict kept),
                                     current_page := Some ?c\<rparr>,
                               effects = [Toast Removed] @ es, fault = None\<rparr>"
      by (simp add: finish_after_def)
    from len more hi lo have "?c = min c (int (length rws) - 2)" "0 \<le> ?c"
      "?c \<le> int (length rws) - 2"
      by auto
    with h len lo more show ?thesis by simp
  qed
  have all: "?h = \<lparr>state_after = s, effects = [Toast Removed, Notice NoFavorites],
                    fault = None\<rparr>"
    if "\<forall>r \<in> set rws. movie_id r = mid"
  proof -
    from that have "kept = []" by (simp add: kept_def)
    with run show ?thesis by simp
  qed
  have single: "\<forall>r \<in> set rws. movie_id r = mid" if "length rws = 1"
  proof -
    from that obtain r where "rws = [r]"
      by (cases rws) auto
    with at_cursor hi lo show ?thesis by simp
  qed
  from once all single show ?thesis by blast
qed

theorem remove_current_favorite_witness:
  "favorites (state_after (snd (remove_from_favorites int_of_text (press ''remove_favorite_8'')
      no_faults empty_db (favorites_session [fav_row 1 7, fav_row 2 8] 1)))) =
     Some [favorite_dict (fav_row 1 7)] \<and>
   current_page (state_after (snd (remove_from_favorites int_of_text
      (press ''remove_favorite_8'') no_faults empty_db
      (favorites_session [fav_row 1 7, fav_row 2 8] 1)))) = Some 0 \<and>
   snd (remove_from_favorites int_of_text (press ''remove_favorite_7'') no_faults empty_db
      (favorites_session [fav_row 1 7] 0)) =
     \<lparr>state_after = favorites_session [fav_row 1 7] 0,
      effects = [Toast Removed, Notice NoFavorites], fault = None\<rparr>"
proof -
  have seg: "last_segment (ascii ''remove_favorite_8'') = ascii ''8''"
    "last_segment (ascii ''remove_favorite_7'') = ascii ''7''"
    by (simp_all add: last_segment_def ascii_def)
  have two: "favorites (favorites_session [fav_row 1 7, fav_row 2 8] 1) =
               Some (map favorite_dict [fav_row 1 7, fav_row 2 8])"
    "current_page (favorites_session [fav_row 1 7, fav_row 2 8] 1) = Some 1"
    and one: "favorites (favorites_session [fav_row 1 7] 0) =
               Some (map favorite_dict [fav_row 1 7])"
    "current_page (favorites_session [fav_row 1 7] 0) = Some 0"
    by (simp_all add: favorites_session_def)
  have p8: "message_chat (press ''remove_favorite_8'') = Some 100"
    "cb_data (press ''remove_favorite_8'') = Some (ascii ''remove_favorite_8'')"
    "ascii ''remove_favorite_8'' \<noteq> []"
    "int_of_text (last_segment (ascii ''remove_favorite_8'')) = Some 8"
    and p7: "message_chat (press ''remove_favorite_7'') = Some 100"
    "cb_data (press ''remove_favorite_7'') = Some (ascii ''remove_favorite_7'')"
    "ascii ''remove_favorite_7'' \<noteq> []"
    "int_of_text (last_segment (ascii ''remove_favorite_7'')) = Some 7"
    by (simp_all add: press_def seg int_of_text_def) (simp_all add: ascii_def)
  have a: "favorites (state_after (snd (remove_from_favorites int_of_text
      (press ''remove_favorite_8'') no_faults empty_db
      (favorites_session [fav_row 1 7, fav_row 2 8] 1)))) =
     Some [favorite_dict (fav_row 1 7)] \<and>
   current_page (state_after (snd (remove_from_favorites int_of_text
      (press ''remove_favorite_8'') no_faults empty_db
      (favorites_session [fav_row 1 7, fav_row 2 8] 1)))) = Some 0"
    using remove_current_favorite [where py_int = int_of_text and d = empty_db, OF two _ _ _ p8]
      remove_current_run [where py_int = int_of_text and d = empty_db, OF two _ p8 refl]
    by (auto simp: fav_row_def finish_after_def split: sum.splits)
  have b: "snd (remove_from_favorites int_of_text (press ''remove_favorite_7'') no_faults
      empty_db (favorites_session [fav_row 1 7] 0)) =
     \<lparr>state_after = favorites_session [fav_row 1 7] 0,
      effects = [Toast Removed, Notice NoFavorites], fault = None\<rparr>"
    using remove_current_favorite [where py_int = int_of_text and d = empty_db, OF one _ _ _ p7]
    by (simp add: fav_row_def)
  from a b show ?thesis by simp
qed

text \<open>
  The claim C2 as stated fails: the table allows the same content id twice, and removing
  it from a session of three entries leaves one entry, not two.
\<close>

theorem duplicate_favorite_removes_two:
  "favorites (state_after (snd (remove_from_favorites int_of_text
      (press ''remove_favorite_7'') no_faults empty_db
      (favorites_session [fav_row 1 7, fav_row 2 7, fav_row 3 8] 0)))) =
     Some [favorite_dict (fav_row 3 8)] \<and>
   length [favorite_dict (fav_row 3 8)] \<noteq> length [fav_row 1 7, fav_row 2 7, fav_row 3 8] - 1"
proof -
  have seg: "last_segment (ascii ''remove_favorite_7'') = ascii ''7''"
    by (simp add: last_segment_def ascii_def)
  have ne: "ascii ''remove_favorite_7'' \<noteq> []"
    by (simp add: ascii_def)
  have "int_of_text (ascii ''7'') = Some 7"
    by (simp add: int_of_text_def)
  with ne show ?thesis
    by (simp add: remove_from_favorites_def press_def seg remove_favorite_no_faults
        favorites_session_def cleared_def favorite_dict_def fav_row_def finish_after_def
        py_index_def show_favorites_page_def render_def release_year_def date_field_def
        Let_def)
qed

end
